theory Spec2Isabelle
  imports Complex_Main "HOL-Library.Sublist"
begin

section \<open>JavaScript values\<close>

text \<open>
  The worker receives a JSON body and hands \<open>body.payload\<close> to \<open>handleApiRequest\<close>.
  A JavaScript number is a double: a finite one is kept as the rational it denotes,
  next to the two infinities (\<open>JSON.parse("1e400")\<close> is \<open>Infinity\<close>) and \<open>NaN\<close>.
\<close>

datatype number = Finite rat | PosInfinity | NegInfinity | NaN

datatype jsval =
    JUndefined
  | JNull
  | JBool bool
  | JNum number
  | JStr string
  | JArr "jsval list"
  | JObj "(string \<times> jsval) list"

text \<open>
  An object is the list of its own enumerable properties in the order in which
  \<open>Object.keys\<close> enumerates them. A well-formed object has no key twice; reading a
  property that is absent gives \<open>undefined\<close>.
\<close>

type_synonym object = "(string \<times> jsval) list"

definition Object_keys :: "object \<Rightarrow> string list" where
  "Object_keys obj = map fst obj"

definition js_get :: "object \<Rightarrow> string \<Rightarrow> jsval" where
  "js_get obj k = (case map_of obj k of None \<Rightarrow> JUndefined | Some v \<Rightarrow> v)"

text \<open>\<open>!v\<close> is \<open>\<not> truthy v\<close>.\<close>

fun truthy :: "jsval \<Rightarrow> bool" where
  "truthy JUndefined = False"
| "truthy JNull = False"
| "truthy (JBool b) = b"
| "truthy (JNum (Finite q)) = (q \<noteq> 0)"
| "truthy (JNum NaN) = False"
| "truthy (JNum PosInfinity) = True"
| "truthy (JNum NegInfinity) = True"
| "truthy (JStr s) = (s \<noteq> [])"
| "truthy (JArr xs) = True"
| "truthy (JObj fs) = True"

section \<open>Strings\<close>

text \<open>
  A string is a list of code units below 256 (Latin-1). In that range \<open>trim\<close>
  strips TAB, LF, VT, FF, CR, SPACE and NBSP, and \<open>toLowerCase\<close> maps \<open>A\<close>..\<open>Z\<close> and
  the accented capitals \<open>0xC0\<close>..\<open>0xDE\<close> (but not the multiplication sign \<open>0xD7\<close>).
\<close>

definition isWhiteSpace :: "char \<Rightarrow> bool" where
  "isWhiteSpace c = ((of_char c :: nat) \<in> {9, 10, 11, 12, 13, 32, 160})"

definition trim :: "string \<Rightarrow> string" where
  "trim s = rev (dropWhile isWhiteSpace (rev (dropWhile isWhiteSpace s)))"

definition lowerChar :: "char \<Rightarrow> char" where
  "lowerChar c =
     (let n = (of_char c :: nat)
      in if (65 \<le> n \<and> n \<le> 90) \<or> (192 \<le> n \<and> n \<le> 222 \<and> n \<noteq> 215)
         then char_of (n + 32) else c)"

definition toLowerCase :: "string \<Rightarrow> string" where
  "toLowerCase s = map lowerChar s"

text \<open>\<open>s.includes(pat)\<close>\<close>

definition str_includes :: "string \<Rightarrow> string \<Rightarrow> bool" where
  "str_includes s pat = sublist pat s"

text \<open>\<open>parts.join(sep)\<close>\<close>

fun join :: "string \<Rightarrow> string list \<Rightarrow> string" where
  "join sep [] = []"
| "join sep [x] = x"
| "join sep (x # y # ys) = x @ sep @ join sep (y # ys)"

section \<open>Table safety\<close>

definition FORBIDDEN_TABLES :: "string list" where
  "FORBIDDEN_TABLES =
     [''sqlite_master'', ''sqlite_schema'', ''sqlite_temp_master'', ''sqlite_sequence'']"

text \<open>
  \<open>resolveTableName\<close> returns \<open>null\<close> (\<open>Inr None\<close>) or the trimmed name. When
  \<open>payload.table_name\<close> is truthy but not a string, \<open>.trim()\<close> is not a function and
  the call throws a \<open>TypeError\<close> (\<open>Inl\<close> its message).
\<close>

definition resolveTableName :: "object \<Rightarrow> string + string option" where
  "resolveTableName payload =
     (let table_name = js_get payload ''table_name''
      in if \<not> truthy table_name then Inr None
         else case table_name of
           JStr s \<Rightarrow>
             if trim s = [] then Inr None
             else let name = trim s
                  in if name \<in> set FORBIDDEN_TABLES then Inr None else Inr (Some name)
         | _ \<Rightarrow> Inl ''payload.table_name.trim is not a function'')"

section \<open>Numbers in SQL text and in template literals\<close>

text \<open>The decimal digits of a natural number, as \<open>`${n}`\<close> prints a small integer.\<close>

fun decimal :: "nat \<Rightarrow> string" where
  "decimal n =
     (if n < 10 then [char_of (48 + n)]
      else decimal (n div 10) @ [char_of (48 + n mod 10)])"

declare decimal.simps [simp del]

text \<open>
  \<open>`${v}`\<close> for any value: \<open>None\<close> is the \<open>TypeError\<close> of a value that cannot be
  converted to a string. An object is printed by the inherited \<open>toString\<close> unless it
  has an own property of that name; a property that came out of JSON is never a
  function, so the conversion of such an object throws. An array prints its elements,
  \<open>null\<close> and \<open>undefined\<close> as nothing, and throws when one of them does. How the engine
  prints a number (\<open>Number::toString\<close>, with its shortest round-trip digits and
  exponents) is taken as the parameter \<open>ns\<close>.
\<close>

fun ToString :: "(number \<Rightarrow> string) \<Rightarrow> jsval \<Rightarrow> string option" where
  "ToString ns JUndefined = Some ''undefined''"
| "ToString ns JNull = Some ''null''"
| "ToString ns (JBool b) = Some (if b then ''true'' else ''false'')"
| "ToString ns (JNum n) = Some (ns n)"
| "ToString ns (JStr s) = Some s"
| "ToString ns (JArr xs) =
     map_option (join '','')
       (those (map (\<lambda>x. if x = JUndefined \<or> x = JNull then Some [] else ToString ns x) xs))"
| "ToString ns (JObj fs) =
     (if ''toString'' \<in> set (Object_keys fs) then None else Some ''[object Object]'')"

definition cannot_convert :: string where
  "cannot_convert = ''Cannot convert object to primitive value''"

definition Number_isInteger :: "jsval \<Rightarrow> bool" where
  "Number_isInteger v = (case v of JNum (Finite q) \<Rightarrow> of_int \<lfloor>q\<rfloor> = q | _ \<Rightarrow> False)"

text \<open>
  \<open>Number.isInteger(options.limit) && options.limit > 0 ? Math.min(options.limit, 500) : 100\<close>
\<close>

definition limit_of :: "jsval \<Rightarrow> nat" where
  "limit_of v =
     (case v of
        JNum (Finite q) \<Rightarrow>
          if Number_isInteger v \<and> q > 0 then min (nat \<lfloor>q\<rfloor>) 500 else 100
      | _ \<Rightarrow> 100)"

section \<open>The store adapter and the logging delegate\<close>

text \<open>
  The D1 binding is an external collaborator. A statement is its SQL text with the
  values bound to it. Each executing call either throws (\<open>Inl\<close> the message of the
  exception) or returns a result object, of which the handler reads \<open>results\<close>,
  \<open>changes\<close> and \<open>meta\<close>; a field the adapter leaves out is \<open>None\<close> or \<open>JUndefined\<close>.
\<close>

record D1Result =
  results :: "object list option"
  changes :: "nat option"
  meta :: jsval

type_synonym statement = "string \<times> jsval list"

record runtime =
  db_run :: "statement \<Rightarrow> string + D1Result"
  db_all :: "statement \<Rightarrow> string + D1Result"
  db_batch :: "statement list \<Rightarrow> string + D1Result list"
  db_exec :: "string \<Rightarrow> string + unit"
  Number_toString :: "number \<Rightarrow> string"

text \<open>What the handler does to the outside, in order.\<close>

datatype event =
    ErrDelegate string
  | DbPrepare string
  | DbRun statement
  | DbAll statement
  | DbBatch "statement list"
  | DbExec string

fun is_store_call :: "event \<Rightarrow> bool" where
  "is_store_call (ErrDelegate msg) = False"
| "is_store_call e = True"

definition store_calls :: "event list \<Rightarrow> event list" where
  "store_calls tr = filter is_store_call tr"

text \<open>The value \<open>handleApiRequest\<close> returns.\<close>

datatype api_result =
    Null
  | Error string
  | Rows "object list"
  | Deleted nat
  | Indexed string
  | ExecOk "object list" jsval
  | Message string
  | Tables nat "jsval list"
  | Inserted nat
  | Indices "object list option"

text \<open>
  A run of code that may throw: \<open>Inl\<close> the message of the exception or \<open>Inr\<close> the
  value returned, with the events up to that point.
\<close>

type_synonym attempt = "(string + api_result) \<times> event list"

section \<open>Globals\<close>

definition allowedColumns :: "string list" where
  "allowedColumns =
     [''c1'', ''c2'', ''c3'', ''i1'', ''i2'', ''i3'', ''d1'', ''d2'', ''d3'',
      ''t1'', ''t2'', ''t3'', ''v1'', ''v2'', ''v3'']"

text \<open>The listing in \<open>usage.md\<close> has \<open>id\<close> in the whitelist as well.\<close>

definition allowedColumns_usage :: "string list" where
  "allowedColumns_usage = ''id'' # allowedColumns"

definition allowedQueryOptions :: "string list" where
  "allowedQueryOptions =
     [''minId'', ''offset'', ''order'', ''orderby'', ''limit'', ''table_name'']"

section \<open>The actions shared by \<open>src/index.js\<close> and the listing in \<open>usage.md\<close>\<close>

text \<open>
  The five cases below are the same text in both files; they differ only in the
  whitelist \<open>cols\<close> they see.
\<close>

definition case_post :: "string list \<Rightarrow> runtime \<Rightarrow> string \<Rightarrow> object \<Rightarrow> attempt" where
  "case_post cols rt tableName payload =
     (let keys = filter (\<lambda>k. k \<noteq> ''table_name'') (Object_keys payload);
          invalidKeys = filter (\<lambda>k. k \<notin> set cols) keys
      in if length invalidKeys > 0
         then (Inr (Error (''Invalid columns: '' @ join '', '' invalidKeys)), [])
         else
           let placeholders = join '','' (map (\<lambda>k. ''?'') keys);
               sql = ''INSERT INTO '' @ tableName @ '' ('' @ join '','' keys @
                     '') VALUES ('' @ placeholders @ '')'';
               vals = map (js_get payload) keys
           in (case db_run rt (sql, vals) of
                 Inl msg \<Rightarrow> Inl msg
               | Inr result \<Rightarrow> Inr Null,
               [DbPrepare sql, DbRun (sql, vals)]))"

definition case_put :: "string list \<Rightarrow> runtime \<Rightarrow> string \<Rightarrow> object \<Rightarrow> attempt" where
  "case_put cols rt tableName payload =
     (if \<not> truthy (js_get payload ''id'')
      then (Inr (Error (''Missing 'id' for update'')), [])
      else
        let keysPut = filter (\<lambda>k. k \<noteq> ''table_name'' \<and> k \<noteq> ''id'') (Object_keys payload);
            invalidKeys = filter (\<lambda>k. k \<notin> set cols) keysPut
        in if length invalidKeys > 0
           then (Inr (Error (''Invalid columns: '' @ join '', '' invalidKeys)), [])
           else
             let (sql, vals) =
                   (if length keysPut = 0
                    then (''UPDATE '' @ tableName @ '' SET v2 = CURRENT_TIMESTAMP WHERE id = ?'',
                          [js_get payload ''id''])
                    else
                      let setClause = join '', '' (map (\<lambda>k. k @ '' = ?'') keysPut)
                      in (''UPDATE '' @ tableName @ '' SET '' @ setClause @
                          '', v2 = CURRENT_TIMESTAMP WHERE id = ?'',
                          map (js_get payload) keysPut @ [js_get payload ''id'']))
             in (case db_run rt (sql, vals) of
                   Inl msg \<Rightarrow> Inl msg
                 | Inr result \<Rightarrow>
                     if changes result = Some 0
                     then (case ToString (Number_toString rt) (js_get payload ''id'') of
                             None \<Rightarrow> Inl cannot_convert
                           | Some shown \<Rightarrow> Inr (Error (''Record not found: id='' @ shown)))
                     else Inr Null,
                 [DbPrepare sql, DbRun (sql, vals)]))"

definition case_get :: "string list \<Rightarrow> runtime \<Rightarrow> string \<Rightarrow> object \<Rightarrow> attempt" where
  "case_get cols rt tableName payload =
     (let options = filter (\<lambda>(k, v). k \<noteq> ''table_name'') payload;
          columnFilters = filter (\<lambda>k. k \<notin> set allowedQueryOptions) (Object_keys options)
      in case find (\<lambda>k. k \<notin> set cols) columnFilters of
           Some k \<Rightarrow> (Inr (Error (''Invalid column in filters: '' @ k)), [])
         | None \<Rightarrow>
             let query0 = ''SELECT * FROM '' @ tableName;
                 order = (if js_get options ''order'' = JStr ''desc'' then ''DESC'' else ''ASC'');
                 orderBy = (case js_get options ''orderby'' of
                              JStr s \<Rightarrow> if s \<in> set cols then s else ''id''
                            | _ \<Rightarrow> ''id'')
             in if js_get options ''minId'' \<noteq> JUndefined \<and> js_get options ''offset'' \<noteq> JUndefined
                then (Inr (Error (''Cannot use both 'minId' and 'offset' together.'')), [])
                else
                  let conditions0 = map (\<lambda>k. k @ '' = ?'') columnFilters;
                      params0 = map (js_get options) columnFilters;
                      bound = orderBy @ '' '' @ (if order = ''ASC'' then ''>'' else ''<'') @ '' ?'';
                      (conditions, params) =
                        (if js_get options ''offset'' \<notin> {JUndefined, JNull}
                         then (conditions0 @ [bound], params0 @ [js_get options ''offset''])
                         else if js_get options ''minId'' \<notin> {JUndefined, JNull}
                         then (conditions0 @ [bound], params0 @ [js_get options ''minId''])
                         else (conditions0, params0));
                      query1 = (if length conditions > 0
                                then query0 @ '' WHERE '' @ join '' AND '' conditions
                                else query0);
                      query2 = query1 @ '' ORDER BY '' @ orderBy @ '' '' @ order;
                      limit = limit_of (js_get options ''limit'');
                      query = query2 @ '' LIMIT '' @ decimal limit
                  in (case db_all rt (query, params) of
                        Inl msg \<Rightarrow> Inl msg
                      | Inr result \<Rightarrow>
                          Inr (Rows (case results result of None \<Rightarrow> [] | Some rows \<Rightarrow> rows)),
                      [DbPrepare query, DbAll (query, params)]))"

definition case_delete :: "string list \<Rightarrow> runtime \<Rightarrow> string \<Rightarrow> object \<Rightarrow> attempt" where
  "case_delete cols rt tableName payload =
     (let keys = filter (\<lambda>k. k \<noteq> ''table_name'') (Object_keys payload);
          invalidKeys = filter (\<lambda>k. k \<notin> set cols) keys
      in if length invalidKeys > 0
         then (Inr (Error (''Invalid columns: '' @ join '', '' invalidKeys)), [])
         else
           let (sql, vals, logged) =
                 (if length keys = 0
                  then (''DELETE FROM '' @ tableName, [],
                        [ErrDelegate (''DELETE ALL from '' @ tableName)])
                  else
                    let where = join '' AND '' (map (\<lambda>k. k @ '' = ?'') keys)
                    in (''DELETE FROM '' @ tableName @ '' WHERE '' @ where,
                        map (js_get payload) keys, []))
           in (case db_run rt (sql, vals) of
                 Inl msg \<Rightarrow> Inl msg
               | Inr result \<Rightarrow>
                   Inr (Deleted (case changes result of None \<Rightarrow> 0 | Some n \<Rightarrow> n)),
               logged @ [DbPrepare sql, DbRun (sql, vals)]))"

definition case_index :: "string list \<Rightarrow> runtime \<Rightarrow> string \<Rightarrow> object \<Rightarrow> attempt" where
  "case_index cols rt tableName payload =
     (case js_get payload ''column'' of
        JStr col \<Rightarrow>
          if col = [] then (Inr (Error ''Missing or invalid column for index''), [])
          else if col \<notin> set cols \<or> col = ''id''
          then (Inr (Error (''Index not allowed on column: '' @ col)), [])
          else
            let indexName = ''idx_'' @ tableName @ ''__'' @ col;
                sql = ''CREATE INDEX IF NOT EXISTS '' @ indexName @ '' ON '' @ tableName @
                      '' ('' @ col @ '')''
            in (case db_exec rt sql of
                  Inl msg \<Rightarrow> (Inl msg, [DbExec sql])
                | Inr u \<Rightarrow>
                    (Inr (Indexed col),
                     [DbExec sql, ErrDelegate (''INDEX created: '' @ tableName @ ''.'' @ col)]))
      | _ \<Rightarrow> (Inr (Error ''Missing or invalid column for index''), []))"

text \<open>The \<open>switch\<close> of \<open>src/index.js\<close>, with its \<open>default\<close>.\<close>

definition switch_action :: "string list \<Rightarrow> runtime \<Rightarrow> string \<Rightarrow> string \<Rightarrow> object \<Rightarrow> attempt" where
  "switch_action cols rt action tableName payload =
     (if action = ''post'' then case_post cols rt tableName payload
      else if action = ''put'' then case_put cols rt tableName payload
      else if action = ''get'' then case_get cols rt tableName payload
      else if action = ''delete'' then case_delete cols rt tableName payload
      else if action = ''index'' then case_index cols rt tableName payload
      else (Inr (Error (''Unknown action: '' @ action)), []))"

text \<open>
  \<open>try { ... } catch (err) { await errDelegate(...); return { error: err.message } }\<close>
\<close>

definition try_catch :: "attempt \<Rightarrow> attempt" where
  "try_catch a =
     (case a of
        (Inl msg, tr) \<Rightarrow>
          (Inr (Error msg), tr @ [ErrDelegate (''DB operation failed: '' @ msg)])
      | (Inr r, tr) \<Rightarrow> (Inr r, tr))"

section \<open>\<open>handleApiRequest\<close> of \<open>src/index.js\<close>\<close>

text \<open>
  \<open>resolveTableName\<close> is called outside the \<open>try\<close>: an exception of it leaves the
  function (\<open>Inl\<close>).
\<close>

definition handleApiRequest :: "runtime \<Rightarrow> string \<Rightarrow> object \<Rightarrow> attempt" where
  "handleApiRequest rt action payload =
     (case resolveTableName payload of
        Inl msg \<Rightarrow> (Inl msg, [])
      | Inr None \<Rightarrow>
          (Inr (Error ''Invalid or missing table_name''),
           [ErrDelegate ''Invalid or missing table_name''])
      | Inr (Some tableName) \<Rightarrow>
          try_catch (switch_action allowedColumns rt action tableName payload))"

section \<open>\<open>handleApiRequest\<close> of the listing in \<open>usage.md\<close>\<close>

text \<open>
  The listing adds eight actions in front of the five above and takes the store as
  an argument.
\<close>

definition case_exec :: "runtime \<Rightarrow> object \<Rightarrow> attempt" where
  "case_exec rt payload =
     (let query = js_get payload ''query'';
          params = js_get payload ''params''
      in if \<not> truthy query then (Inr (Error ''Missing SQL query''), [])
         else case query of
           JStr q \<Rightarrow>
             let lowerQuery = trim (toLowerCase q)
             in if str_includes lowerQuery ''sqlite_master'' \<or> str_includes lowerQuery ''_cf_''
                then (Inr (Error ''Access to system tables via EXEC is forbidden.''), [])
                else
                  let stmt = (q, case params of JArr ps \<Rightarrow> ps | _ \<Rightarrow> [])
                  in (case db_all rt stmt of
                        Inl msg \<Rightarrow> Inr (Error (''SQL Execution Error: '' @ msg))
                      | Inr result \<Rightarrow>
                          Inr (ExecOk (case results result of None \<Rightarrow> [] | Some rows \<Rightarrow> rows)
                                      (meta result)),
                      [DbPrepare q, DbAll stmt])
         | _ \<Rightarrow> (Inl ''query.toLowerCase is not a function'', []))"

definition nl :: string where
  "nl = [CHR 0x0A]"

definition spaces :: "nat \<Rightarrow> string" where
  "spaces n = replicate n (CHR '' '')"

definition case_create_table :: "runtime \<Rightarrow> string \<Rightarrow> object \<Rightarrow> attempt" where
  "case_create_table rt tableName payload =
     (let c1Unique = truthy (js_get payload ''c1_unique'');
          c1Constraint = (if c1Unique then ''UNIQUE'' else []);
          tableSql =
            nl @ spaces 10 @ ''CREATE TABLE IF NOT EXISTS '' @ tableName @ '' ('' @
            nl @ spaces 12 @ ''id INTEGER PRIMARY KEY AUTOINCREMENT,'' @
            nl @ spaces 12 @ ''c1 VARCHAR(255) '' @ c1Constraint @ '','' @
            nl @ spaces 12 @ ''c2 VARCHAR(255), c3 VARCHAR(255),'' @
            nl @ spaces 12 @ ''i1 INT, i2 INT, i3 INT,'' @
            nl @ spaces 12 @ ''d1 DOUBLE, d2 DOUBLE, d3 DOUBLE,'' @
            nl @ spaces 12 @ ''t1 TEXT, t2 TEXT, t3 TEXT,'' @
            nl @ spaces 12 @ ''v1 TIMESTAMP DEFAULT CURRENT_TIMESTAMP,'' @
            nl @ spaces 12 @ ''v2 TIMESTAMP DEFAULT CURRENT_TIMESTAMP,'' @
            nl @ spaces 12 @ ''v3 TIMESTAMP DEFAULT CURRENT_TIMESTAMP'' @
            nl @ spaces 10 @ '');'' @
            nl @ spaces 8;
          statements =
            [tableSql] @
            (if \<not> c1Unique
             then [''CREATE INDEX IF NOT EXISTS idx_'' @ tableName @ ''_c1 ON '' @ tableName @ ''(c1)'']
             else []) @
            [''CREATE INDEX IF NOT EXISTS idx_'' @ tableName @ ''_v2 ON '' @ tableName @ ''(v2)''];
          tr = map DbPrepare statements @ [DbBatch (map (\<lambda>sql. (sql, [])) statements)]
      in (case db_batch rt (map (\<lambda>sql. (sql, [])) statements) of
            Inl msg \<Rightarrow> Inl msg
          | Inr rs \<Rightarrow>
              Inr (Message (''Table '' @ tableName @ '' is ready with indices on '' @
                            (if c1Unique then ''v2'' else ''c1, v2'') @ ''.'')),
          tr))"

definition case_list_tables :: "runtime \<Rightarrow> attempt" where
  "case_list_tables rt =
     (let query =
            nl @ spaces 10 @ ''SELECT name '' @
            nl @ spaces 10 @ ''FROM sqlite_master '' @
            nl @ spaces 10 @ ''WHERE type='' @ [CHR 0x27] @ ''table'' @ [CHR 0x27] @ '' '' @
            nl @ spaces 12 @ ''AND name NOT LIKE '' @ [CHR 0x27] @ ''sqlite_%'' @ [CHR 0x27] @ '' '' @
            nl @ spaces 12 @ ''AND name NOT LIKE '' @ [CHR 0x27] @ ''_cf_%'' @ [CHR 0x27] @
            nl @ spaces 8
      in (case db_all rt (query, []) of
            Inl msg \<Rightarrow> Inl msg
          | Inr result \<Rightarrow>
              (case results result of
                 None \<Rightarrow>
                   Inl (''Cannot read properties of undefined (reading '' @ [CHR 0x27] @
                        ''map'' @ [CHR 0x27] @ '')'')
               | Some rows \<Rightarrow>
                   let tableNames = map (\<lambda>row. js_get row ''name'') rows
                   in Inr (Tables (length tableNames) tableNames)),
          [DbPrepare query, DbAll (query, [])]))"

text \<open>
  \<open>Object.keys(record)\<close> on an element of \<open>payload.data\<close>, which may be any value:
  \<open>null\<close> throws, an array or a string has its indices as keys, any other
  primitive has none.
\<close>

definition Object_keys_of :: "jsval \<Rightarrow> string + string list" where
  "Object_keys_of v =
     (case v of
        JObj fs \<Rightarrow> Inr (Object_keys fs)
      | JArr xs \<Rightarrow> Inr (map decimal [0..<length xs])
      | JStr s \<Rightarrow> Inr (map decimal [0..<length s])
      | JUndefined \<Rightarrow> Inl ''Cannot convert undefined or null to object''
      | JNull \<Rightarrow> Inl ''Cannot convert undefined or null to object''
      | _ \<Rightarrow> Inr [])"

text \<open>
  \<open>record[k]\<close> for a column name \<open>k\<close>: only an object has such a property.
\<close>

definition js_get_of :: "jsval \<Rightarrow> string \<Rightarrow> jsval" where
  "js_get_of v k = (case v of JObj fs \<Rightarrow> js_get fs k | _ \<Rightarrow> JUndefined)"

text \<open>
  The callback of \<open>records.map\<close>: the statement for one record, the keys outside the
  whitelist filtered away.
\<close>

definition insert_statement :: "string \<Rightarrow> jsval \<Rightarrow> string + statement" where
  "insert_statement tableName record =
     (case Object_keys_of record of
        Inl msg \<Rightarrow> Inl msg
      | Inr ks \<Rightarrow>
          let keys = filter (\<lambda>k. k \<in> set allowedColumns_usage) ks;
              placeholders = join '','' (map (\<lambda>k. ''?'') keys);
              sql = ''INSERT INTO '' @ tableName @ '' ('' @ join '','' keys @
                    '') VALUES ('' @ placeholders @ '')'';
              vals = map (js_get_of record) keys
          in Inr (sql, vals))"

text \<open>
  \<open>records.map(...)\<close>: the statements prepared so far, and the exception that stops
  the loop if there is one.
\<close>

fun map_statements :: "string \<Rightarrow> jsval list \<Rightarrow> statement list \<times> string option" where
  "map_statements tableName [] = ([], None)"
| "map_statements tableName (record # records) =
     (case insert_statement tableName record of
        Inl msg \<Rightarrow> ([], Some msg)
      | Inr stmt \<Rightarrow>
          (case map_statements tableName records of
             (stmts, thrown) \<Rightarrow> (stmt # stmts, thrown)))"

definition case_batch_post :: "runtime \<Rightarrow> string \<Rightarrow> object \<Rightarrow> attempt" where
  "case_batch_post rt tableName payload =
     (case js_get payload ''data'' of
        JArr records \<Rightarrow>
          (case map_statements tableName records of
             (stmts, Some msg) \<Rightarrow> (Inl msg, map (\<lambda>stmt. DbPrepare (fst stmt)) stmts)
           | (statements, None) \<Rightarrow>
               (case db_batch rt statements of
                  Inl msg \<Rightarrow> Inl msg
                | Inr rs \<Rightarrow> Inr (Inserted (length rs)),
                map (\<lambda>stmt. DbPrepare (fst stmt)) statements @ [DbBatch statements]))
      | _ \<Rightarrow> (Inr (Error (''Payload 'data' must be an array'')), []))"

definition case_drop_table :: "runtime \<Rightarrow> string \<Rightarrow> attempt" where
  "case_drop_table rt tableName =
     (let sql = ''DROP TABLE IF EXISTS '' @ tableName
      in (case db_run rt (sql, []) of
            Inl msg \<Rightarrow> Inl msg
          | Inr result \<Rightarrow> Inr (Message (''Table '' @ tableName @ '' has been deleted.'')),
          [DbPrepare sql, DbRun (sql, [])]))"

definition case_create_index :: "runtime \<Rightarrow> string \<Rightarrow> object \<Rightarrow> attempt" where
  "case_create_index rt tableName payload =
     (let col = js_get payload ''column'';
          isUnique = truthy (js_get payload ''unique'')
      in case col of
           JStr c \<Rightarrow>
             if c = [] \<or> c \<notin> set allowedColumns_usage
             then (Inr (Error (''Invalid or missing column: '' @ c)), [])
             else
               let indexName = ''idx_'' @ tableName @ ''_'' @ c;
                   uniqueStr = (if isUnique then ''UNIQUE'' else []);
                   sql = ''CREATE '' @ uniqueStr @ '' INDEX IF NOT EXISTS '' @ indexName @
                         '' ON '' @ tableName @ '' ('' @ c @ '')''
               in (case db_run rt (sql, []) of
                     Inl msg \<Rightarrow> Inl msg
                   | Inr result \<Rightarrow> Inr (Message (''Index '' @ indexName @ '' created.'')),
                   [DbPrepare sql, DbRun (sql, [])])
         | _ \<Rightarrow>
             (case ToString (Number_toString rt) col of
                None \<Rightarrow> (Inl cannot_convert, [])
              | Some shown \<Rightarrow> (Inr (Error (''Invalid or missing column: '' @ shown)), [])))"

definition case_list_indices :: "runtime \<Rightarrow> string \<Rightarrow> attempt" where
  "case_list_indices rt tableName =
     (let sql = ''PRAGMA index_list('' @ tableName @ '')''
      in (case db_all rt (sql, []) of
            Inl msg \<Rightarrow> Inl msg
          | Inr result \<Rightarrow> Inr (Indices (results result)),
          [DbPrepare sql, DbAll (sql, [])]))"

definition case_drop_index :: "runtime \<Rightarrow> string \<Rightarrow> object \<Rightarrow> attempt" where
  "case_drop_index rt tableName payload =
     (let col = js_get payload ''column''
      in if \<not> truthy col then (Inr (Error ''Missing column name to drop index''), [])
         else case ToString (Number_toString rt) col of
           None \<Rightarrow> (Inl cannot_convert, [])
         | Some shown \<Rightarrow>
             let indexName = ''idx_'' @ tableName @ ''_'' @ shown;
                 sql = ''DROP INDEX IF EXISTS '' @ indexName
             in (case db_run rt (sql, []) of
                   Inl msg \<Rightarrow> Inl msg
                 | Inr result \<Rightarrow> Inr (Message (''Index '' @ indexName @ '' dropped.'')),
                 [DbPrepare sql, DbRun (sql, [])]))"

definition switch_action_usage :: "runtime \<Rightarrow> string \<Rightarrow> string \<Rightarrow> object \<Rightarrow> attempt" where
  "switch_action_usage rt action tableName payload =
     (if action = ''exec'' then case_exec rt payload
      else if action = ''create_table'' then case_create_table rt tableName payload
      else if action = ''list_tables'' then case_list_tables rt
      else if action = ''batch_post'' then case_batch_post rt tableName payload
      else if action = ''drop_table'' then case_drop_table rt tableName
      else if action = ''create_index'' then case_create_index rt tableName payload
      else if action = ''list_indices'' then case_list_indices rt tableName
      else if action = ''drop_index'' then case_drop_index rt tableName payload
      else switch_action allowedColumns_usage rt action tableName payload)"

definition handleApiRequest_usage :: "runtime \<Rightarrow> string \<Rightarrow> object \<Rightarrow> attempt" where
  "handleApiRequest_usage rt action payload =
     (case resolveTableName payload of
        Inl msg \<Rightarrow> (Inl msg, [])
      | Inr None \<Rightarrow>
          (Inr (Error ''Invalid or missing table_name''),
           [ErrDelegate ''Invalid or missing table_name''])
      | Inr (Some tableName) \<Rightarrow>
          try_catch (switch_action_usage rt action tableName payload))"

section \<open>Stores to run the handler against\<close>

text \<open>
  Integers as the engine prints them (below \<open>10^21\<close>); the stores below are only run
  on integers.
\<close>

definition integer_toString :: "number \<Rightarrow> string" where
  "integer_toString x =
     (case x of
        Finite q \<Rightarrow> if q < 0 then ''-'' @ decimal (nat \<lfloor>- q\<rfloor>) else decimal (nat \<lfloor>q\<rfloor>)
      | PosInfinity \<Rightarrow> ''Infinity''
      | NegInfinity \<Rightarrow> ''-Infinity''
      | NaN \<Rightarrow> ''NaN'')"

text \<open>
  A store that accepts every statement and reports the count in the field \<open>changes\<close>
  that the handler reads: a mutation changes \<open>n\<close> rows, a query returns no rows, a
  batch returns one result for each statement.
\<close>

definition accepting_result :: "nat \<Rightarrow> D1Result" where
  "accepting_result n = \<lparr>results = Some [], changes = Some n, meta = JUndefined\<rparr>"

definition accepting_store :: "nat \<Rightarrow> runtime" where
  "accepting_store n =
     \<lparr>db_run = (\<lambda>stmt. Inr (accepting_result n)),
      db_all = (\<lambda>stmt. Inr (accepting_result n)),
      db_batch = (\<lambda>stmts. Inr (map (\<lambda>stmt. accepting_result n) stmts)),
      db_exec = (\<lambda>sql. Inr ()),
      Number_toString = integer_toString\<rparr>"

text \<open>
  A store that replies the way a D1 binding does: the object has \<open>success\<close>, \<open>meta\<close> and
  \<open>results\<close>, and the number of rows a statement changed is \<open>meta.changes\<close>. There is no
  \<open>changes\<close> beside \<open>meta\<close>, so \<open>result.changes\<close> is \<open>undefined\<close>. In the listing of
  \<open>usage.md\<close> the \<open>exec\<close> case hands \<open>result.meta\<close> on with the comment that it holds the
  counts.
\<close>

definition d1_result :: "nat \<Rightarrow> D1Result" where
  "d1_result n =
     \<lparr>results = Some [], changes = None,
      meta = JObj [(''changes'', JNum (Finite (of_nat n)))]\<rparr>"

definition d1_store :: "nat \<Rightarrow> runtime" where
  "d1_store n =
     \<lparr>db_run = (\<lambda>stmt. Inr (d1_result n)),
      db_all = (\<lambda>stmt. Inr (d1_result n)),
      db_batch = (\<lambda>stmts. Inr (map (\<lambda>stmt. d1_result n) stmts)),
      db_exec = (\<lambda>sql. Inr ()),
      Number_toString = integer_toString\<rparr>"

section \<open>Properties of the string helpers\<close>

lemma trim_decompose:
  "\<exists>l r. s = l @ trim s @ r \<and> (\<forall>c\<in>set l. isWhiteSpace c) \<and> (\<forall>c\<in>set r. isWhiteSpace c)"
proof -
  let ?a = "takeWhile isWhiteSpace s"
  let ?m = "dropWhile isWhiteSpace s"
  let ?b = "takeWhile isWhiteSpace (rev ?m)"
  have m: "rev ?m = ?b @ dropWhile isWhiteSpace (rev ?m)"
    by simp
  have "rev (rev ?m) = rev (?b @ dropWhile isWhiteSpace (rev ?m))"
    by (simp only: takeWhile_dropWhile_id)
  then have "?m = rev (dropWhile isWhiteSpace (rev ?m)) @ rev ?b"
    by (simp only: rev_rev_ident rev_append)
  then have "s = ?a @ trim s @ rev ?b"
    by (simp add: trim_def)
  moreover have "\<forall>c\<in>set ?a. isWhiteSpace c"
    by (auto dest: set_takeWhileD)
  moreover have "\<forall>c\<in>set (rev ?b). isWhiteSpace c"
    by (auto dest: set_takeWhileD)
  ultimately show ?thesis by blast
qed

lemma trim_ends:
  "trim s \<noteq> [] \<Longrightarrow> \<not> isWhiteSpace (hd (trim s)) \<and> \<not> isWhiteSpace (last (trim s))"
proof -
  assume ne: "trim s \<noteq> []"
  let ?m = "dropWhile isWhiteSpace s"
  let ?d = "dropWhile isWhiteSpace (rev ?m)"
  have d: "?d \<noteq> []" using ne by (simp add: trim_def)
  then have l: "\<not> isWhiteSpace (hd ?d)" by (rule hd_dropWhile)
  have mne: "?m \<noteq> []"
  proof
    assume a: "?m = []"
    show False using d unfolding a by simp
  qed
  have "trim s = rev ?d" by (simp add: trim_def)
  then have last_ok: "\<not> isWhiteSpace (last (trim s))"
    using l d by (simp add: last_rev)
  have "hd (trim s) = last ?d" using d by (simp add: trim_def hd_rev)
  also have "\<dots> = last (rev ?m)"
  proof -
    have "rev ?m = takeWhile isWhiteSpace (rev ?m) @ ?d" by simp
    then show ?thesis using d by (metis last_appendR)
  qed
  also have "\<dots> = hd ?m" using mne by (simp add: last_rev)
  finally have "hd (trim s) = hd ?m" .
  moreover have "\<not> isWhiteSpace (hd ?m)" using mne by (rule hd_dropWhile)
  ultimately show ?thesis using last_ok by simp
qed

lemma trim_empty_iff: "trim s = [] \<longleftrightarrow> (\<forall>c\<in>set s. isWhiteSpace c)"
proof
  assume "trim s = []"
  then show "\<forall>c\<in>set s. isWhiteSpace c"
    using trim_decompose [of s] by auto
next
  assume "\<forall>c\<in>set s. isWhiteSpace c"
  then have "dropWhile isWhiteSpace s = []"
    by (metis dropWhile_eq_Nil_conv)
  then show "trim s = []" unfolding trim_def by (simp only: rev.simps dropWhile.simps)
qed

section \<open>Properties of the handler\<close>

lemma store_calls_Nil: "store_calls [] = []"
  by (simp add: store_calls_def)

lemma store_calls_log: "store_calls [ErrDelegate m] = []"
  by (simp add: store_calls_def)

lemma try_catch_returned: "try_catch (Inr r, tr) = (Inr r, tr)"
  by (simp add: try_catch_def)

lemma js_get_options:
  "k \<noteq> ''table_name'' \<Longrightarrow> js_get (filter (\<lambda>(k, v). k \<noteq> ''table_name'') payload) k = js_get payload k"
  by (induction payload) (auto simp: js_get_def)

lemma keys_options:
  "Object_keys (filter (\<lambda>(k, v). k \<noteq> ''table_name'') payload) =
   filter (\<lambda>k. k \<noteq> ''table_name'') (Object_keys payload)"
  by (induction payload) (auto simp: Object_keys_def)

lemma case_post_invalid:
  assumes "k \<in> set (Object_keys payload)" "k \<noteq> ''table_name''" "k \<notin> set cols"
  shows "\<exists>msg. case_post cols rt t payload = (Inr (Error msg), [])"
proof -
  have "k \<in> set (filter (\<lambda>k. k \<notin> set cols) (filter (\<lambda>k. k \<noteq> ''table_name'') (Object_keys payload)))"
    using assms by simp
  then have "filter (\<lambda>k. k \<notin> set cols) (filter (\<lambda>k. k \<noteq> ''table_name'') (Object_keys payload)) \<noteq> []"
    by (metis empty_iff empty_set)
  then show ?thesis
    by (simp add: case_post_def Let_def)
qed

lemma case_delete_invalid:
  assumes "k \<in> set (Object_keys payload)" "k \<noteq> ''table_name''" "k \<notin> set cols"
  shows "\<exists>msg. case_delete cols rt t payload = (Inr (Error msg), [])"
proof -
  have "k \<in> set (filter (\<lambda>k. k \<notin> set cols) (filter (\<lambda>k. k \<noteq> ''table_name'') (Object_keys payload)))"
    using assms by simp
  then have "filter (\<lambda>k. k \<notin> set cols) (filter (\<lambda>k. k \<noteq> ''table_name'') (Object_keys payload)) \<noteq> []"
    by (metis empty_iff empty_set)
  then show ?thesis
    by (simp add: case_delete_def Let_def)
qed

lemma case_put_invalid:
  assumes "k \<in> set (Object_keys payload)" "k \<noteq> ''table_name''" "k \<noteq> ''id''" "k \<notin> set cols"
  shows "\<exists>msg. case_put cols rt t payload = (Inr (Error msg), [])"
proof -
  have "k \<in> set (filter (\<lambda>k. k \<notin> set cols)
           (filter (\<lambda>k. k \<noteq> ''table_name'' \<and> k \<noteq> ''id'') (Object_keys payload)))"
    using assms by simp
  then have "filter (\<lambda>k. k \<notin> set cols)
           (filter (\<lambda>k. k \<noteq> ''table_name'' \<and> k \<noteq> ''id'') (Object_keys payload)) \<noteq> []"
    by (metis empty_iff empty_set)
  then show ?thesis
    by (simp add: case_put_def Let_def)
qed

lemma case_get_invalid:
  assumes "k \<in> set (Object_keys payload)" "k \<notin> set allowedQueryOptions" "k \<notin> set cols"
  shows "\<exists>msg. case_get cols rt t payload = (Inr (Error msg), [])"
proof -
  let ?options = "filter (\<lambda>(k, v). k \<noteq> ''table_name'') payload"
  let ?cf = "filter (\<lambda>k. k \<notin> set allowedQueryOptions) (Object_keys ?options)"
  have "k \<noteq> ''table_name''" using assms(2) by (auto simp: allowedQueryOptions_def)
  then have "k \<in> set ?cf" using assms by (simp add: keys_options)
  then have "find (\<lambda>k. k \<notin> set cols) ?cf \<noteq> None"
    using assms(3) by (auto simp: find_None_iff)
  then obtain k' where "find (\<lambda>k. k \<notin> set cols) ?cf = Some k'" by blast
  then show ?thesis
    by (simp add: case_get_def Let_def)
qed

lemma case_put_no_id:
  "\<not> truthy (js_get payload ''id'') \<Longrightarrow>
   case_put cols rt t payload = (Inr (Error ''Missing 'id' for update''), [])"
  by (simp add: case_put_def)

lemma handle_resolved:
  "resolveTableName payload = Inr (Some t) \<Longrightarrow>
   handleApiRequest rt action payload = try_catch (switch_action allowedColumns rt action t payload)"
  by (simp add: handleApiRequest_def)

lemma handle_usage_resolved:
  "resolveTableName payload = Inr (Some t) \<Longrightarrow>
   handleApiRequest_usage rt action payload = try_catch (switch_action_usage rt action t payload)"
  by (simp add: handleApiRequest_usage_def)

lemma handle_unresolved:
  "resolveTableName payload = Inr None \<Longrightarrow>
   handleApiRequest rt action payload =
     (Inr (Error ''Invalid or missing table_name''), [ErrDelegate ''Invalid or missing table_name''])"
  by (simp add: handleApiRequest_def)

lemma handle_usage_unresolved:
  "resolveTableName payload = Inr None \<Longrightarrow>
   handleApiRequest_usage rt action payload =
     (Inr (Error ''Invalid or missing table_name''), [ErrDelegate ''Invalid or missing table_name''])"
  by (simp add: handleApiRequest_usage_def)

lemma handle_throws:
  "resolveTableName payload = Inl e \<Longrightarrow> handleApiRequest rt action payload = (Inl e, [])"
  by (simp add: handleApiRequest_def)

lemma handle_usage_throws:
  "resolveTableName payload = Inl e \<Longrightarrow> handleApiRequest_usage rt action payload = (Inl e, [])"
  by (simp add: handleApiRequest_usage_def)

lemma switch_put: "switch_action cols rt ''put'' t payload = case_put cols rt t payload"
  by (simp add: switch_action_def)

lemma switch_usage_put:
  "switch_action_usage rt ''put'' t payload = case_put allowedColumns_usage rt t payload"
  by (simp add: switch_action_usage_def switch_action_def)

lemma resolve_users: "resolveTableName ((''table_name'', JStr ''users'') # fs) = Inr (Some ''users'')"
  by (simp add: resolveTableName_def js_get_def trim_def isWhiteSpace_def FORBIDDEN_TABLES_def)

lemma switch_get: "switch_action cols rt ''get'' t payload = case_get cols rt t payload"
  by (simp add: switch_action_def)

lemma find_Some_member: "find P xs = Some x \<Longrightarrow> x \<in> set xs \<and> P x"
  by (induction xs) (auto split: if_splits)

lemma case_get_error_or_both:
  assumes "js_get payload ''minId'' \<noteq> JUndefined" and "js_get payload ''offset'' \<noteq> JUndefined"
  shows "(\<exists>msg. case_get cols rt t payload = (Inr (Error msg), [])) \<and>
         ((\<forall>k\<in>set (Object_keys payload). k \<in> set allowedQueryOptions \<or> k \<in> set cols) \<longrightarrow>
          case_get cols rt t payload =
            (Inr (Error ''Cannot use both 'minId' and 'offset' together.''), []))"
proof -
  let ?options = "filter (\<lambda>(k, v). k \<noteq> ''table_name'') payload"
  let ?cf = "filter (\<lambda>k. k \<notin> set allowedQueryOptions) (Object_keys ?options)"
  have both: "js_get ?options ''minId'' \<noteq> JUndefined \<and> js_get ?options ''offset'' \<noteq> JUndefined"
    using assms by (simp add: js_get_options)
  show ?thesis
  proof (cases "find (\<lambda>k. k \<notin> set cols) ?cf")
    case None
    then have "case_get cols rt t payload =
            (Inr (Error ''Cannot use both 'minId' and 'offset' together.''), [])"
      using both by (simp add: case_get_def Let_def)
    then show ?thesis by simp
  next
    case (Some k)
    then have e: "case_get cols rt t payload = (Inr (Error (''Invalid column in filters: '' @ k)), [])"
      by (simp add: case_get_def Let_def)
    have "k \<in> set ?cf \<and> k \<notin> set cols"
      using find_Some_member [OF Some] by simp
    then have "k \<in> set (Object_keys payload) \<and> k \<notin> set allowedQueryOptions \<and> k \<notin> set cols"
      by (auto simp: keys_options)
    then show ?thesis using e by auto
  qed
qed

lemma resolve_absent:
  "js_get payload ''table_name'' = JUndefined \<Longrightarrow> resolveTableName payload = Inr None"
  by (simp add: resolveTableName_def)

lemma resolve_Some:
  assumes "resolveTableName payload = Inr (Some t)"
  shows "t \<noteq> [] \<and> t \<notin> set FORBIDDEN_TABLES \<and> (\<exists>s. js_get payload ''table_name'' = JStr s \<and> t = trim s)"
  using assms
  by (auto simp: resolveTableName_def Let_def split: if_splits jsval.splits)

lemma handle_store_call_resolved:
  assumes "store_calls (snd (handleApiRequest rt action payload)) \<noteq> []"
  shows "\<exists>t. resolveTableName payload = Inr (Some t)"
proof (cases "resolveTableName payload")
  case (Inl e)
  then show ?thesis using assms by (simp add: handle_throws store_calls_Nil)
next
  case (Inr tn)
  then show ?thesis
    using assms by (cases tn) (simp_all add: handle_unresolved store_calls_log)
qed

lemma handle_usage_store_call_resolved:
  assumes "store_calls (snd (handleApiRequest_usage rt action payload)) \<noteq> []"
  shows "\<exists>t. resolveTableName payload = Inr (Some t)"
proof (cases "resolveTableName payload")
  case (Inl e)
  then show ?thesis using assms by (simp add: handle_usage_throws store_calls_Nil)
next
  case (Inr tn)
  then show ?thesis
    using assms by (cases tn) (simp_all add: handle_usage_unresolved store_calls_log)
qed

lemma limit_of_positive: "0 < n \<Longrightarrow> limit_of (JNum (Finite (of_nat n))) = min n 500"
  by (simp add: limit_of_def Number_isInteger_def)

lemma limit_of_default:
  assumes "\<forall>n>0. v \<noteq> JNum (Finite (of_nat n))"
  shows "limit_of v = 100"
proof (cases v)
  case (JNum x)
  show ?thesis
  proof (cases x)
    case (Finite q)
    have "\<not> (of_int \<lfloor>q\<rfloor> = q \<and> q > 0)"
    proof
      assume a: "of_int \<lfloor>q\<rfloor> = q \<and> q > 0"
      then have f: "0 < \<lfloor>q\<rfloor>" by linarith
      then have "(of_nat (nat \<lfloor>q\<rfloor>) :: rat) = of_int \<lfloor>q\<rfloor>" by simp
      then have "q = of_nat (nat \<lfloor>q\<rfloor>)" using a by metis
      moreover have "0 < nat \<lfloor>q\<rfloor>" using f by simp
      ultimately show False using assms JNum Finite by blast
    qed
    then show ?thesis using JNum Finite by (auto simp: limit_of_def Number_isInteger_def)
  qed (simp_all add: limit_of_def JNum)
qed (simp_all add: limit_of_def)

lemma case_get_valid:
  assumes "find (\<lambda>k. k \<notin> set cols)
             (filter (\<lambda>k. k \<notin> set allowedQueryOptions)
               (Object_keys (filter (\<lambda>(k, v). k \<noteq> ''table_name'') payload))) = None"
    and "js_get payload ''minId'' = JUndefined \<or> js_get payload ''offset'' = JUndefined"
  shows "\<exists>pre params. store_calls (snd (try_catch (case_get cols rt t payload))) =
           [DbPrepare (pre @ '' LIMIT '' @ decimal (limit_of (js_get payload ''limit''))),
            DbAll (pre @ '' LIMIT '' @ decimal (limit_of (js_get payload ''limit'')), params)]"
proof -
  define options where "options = filter (\<lambda>(k, v). k \<noteq> ''table_name'') payload"
  let ?cf = "filter (\<lambda>k. k \<notin> set allowedQueryOptions) (Object_keys options)"
  let ?order = "(if js_get options ''order'' = JStr ''desc'' then ''DESC'' else ''ASC'')"
  let ?orderBy = "(case js_get options ''orderby'' of
                              JStr s \<Rightarrow> if s \<in> set cols then s else ''id''
                            | _ \<Rightarrow> ''id'')"
  let ?c0 = "map (\<lambda>k. k @ '' = ?'') ?cf"
  let ?p0 = "map (js_get options) ?cf"
  let ?bound = "?orderBy @ '' '' @ (if ?order = ''ASC'' then ''>'' else ''<'') @ '' ?''"
  let ?cp = "(if js_get options ''offset'' \<notin> {JUndefined, JNull}
                         then (?c0 @ [?bound], ?p0 @ [js_get options ''offset''])
                         else if js_get options ''minId'' \<notin> {JUndefined, JNull}
                         then (?c0 @ [?bound], ?p0 @ [js_get options ''minId''])
                         else (?c0, ?p0))"
  let ?q0 = "''SELECT * FROM '' @ t"
  let ?q1 = "(if length (fst ?cp) > 0
                                then ?q0 @ '' WHERE '' @ join '' AND '' (fst ?cp)
                                else ?q0)"
  let ?q2 = "?q1 @ '' ORDER BY '' @ ?orderBy @ '' '' @ ?order"
  have nb: "\<not> (js_get options ''minId'' \<noteq> JUndefined \<and> js_get options ''offset'' \<noteq> JUndefined)"
    using assms(2) by (simp add: js_get_options options_def)
  have lim: "js_get options ''limit'' = js_get payload ''limit''"
    by (simp add: js_get_options options_def)
  have f: "find (\<lambda>k. k \<notin> set cols) ?cf = None"
    using assms(1) by (simp only: options_def)
  define q where "q = ?q2"
  define ps where "ps = snd ?cp"
  have s: "snd (case_get cols rt t payload) =
           [DbPrepare (q @ '' LIMIT '' @ decimal (limit_of (js_get payload ''limit''))),
            DbAll (q @ '' LIMIT '' @ decimal (limit_of (js_get payload ''limit'')), ps)]"
    unfolding case_get_def Let_def options_def [symmetric] q_def ps_def
    by (simp only: f option.case nb if_False case_prod_unfold snd_conv lim append_assoc)
  obtain r tr where c: "case_get cols rt t payload = (r, tr)"
    by (cases "case_get cols rt t payload")
  have "store_calls (snd (try_catch (r, tr))) = store_calls tr"
    by (cases r) (simp_all add: try_catch_def store_calls_def)
  moreover have "store_calls tr = tr"
    using s unfolding c by (simp add: store_calls_def)
  ultimately have "store_calls (snd (try_catch (case_get cols rt t payload))) =
           [DbPrepare (q @ '' LIMIT '' @ decimal (limit_of (js_get payload ''limit''))),
            DbAll (q @ '' LIMIT '' @ decimal (limit_of (js_get payload ''limit'')), ps)]"
    using s unfolding c by simp
  then show ?thesis by blast
qed


lemma decimal_500: "decimal 500 = ''500''"
  by code_simp

lemma decimal_100: "decimal 100 = ''100''"
  by code_simp

lemma switch_delete: "switch_action cols rt ''delete'' t payload = case_delete cols rt t payload"
  by (simp add: switch_action_def)

lemma case_delete_all:
  assumes "set (Object_keys payload) \<subseteq> {''table_name''}"
  shows "case_delete cols rt t payload =
     (case db_run rt (''DELETE FROM '' @ t, []) of
        Inl msg \<Rightarrow> Inl msg
      | Inr result \<Rightarrow> Inr (Deleted (case changes result of None \<Rightarrow> 0 | Some n \<Rightarrow> n)),
      [ErrDelegate (''DELETE ALL from '' @ t),
       DbPrepare (''DELETE FROM '' @ t), DbRun (''DELETE FROM '' @ t, [])])"
proof -
  have "filter (\<lambda>k. k \<noteq> ''table_name'') (Object_keys payload) = []"
    using assms by (auto simp: filter_empty_conv)
  then show ?thesis
    by (simp add: case_delete_def Let_def)
qed

lemma sublist_dropWhile:
  assumes "sublist m s" and "m \<noteq> []" and "\<not> P (hd m)"
  shows "sublist m (dropWhile P s)"
proof -
  obtain ps ss where s: "s = ps @ m @ ss"
    using assms(1) by (auto simp: sublist_def)
  obtain x m' where m: "m = x # m'" using assms(2) by (cases m) auto
  show ?thesis
  proof (cases "\<forall>c\<in>set ps. P c")
    case True
    then have "dropWhile P s = dropWhile P (m @ ss)"
      unfolding s by simp
    also have "\<dots> = m @ ss" using assms(3) m by simp
    finally show ?thesis by simp
  next
    case False
    then obtain c where "c \<in> set ps" "\<not> P c" by blast
    then have "dropWhile P s = dropWhile P ps @ m @ ss"
      unfolding s by (simp add: dropWhile_append1)
    then show ?thesis by simp
  qed
qed

lemma sublist_trim:
  assumes "sublist m s" and "m \<noteq> []"
    and "\<not> isWhiteSpace (hd m)" and "\<not> isWhiteSpace (last m)"
  shows "sublist m (trim s)"
proof -
  have "sublist m (dropWhile isWhiteSpace s)"
    using assms(1,2,3) by (rule sublist_dropWhile)
  then have "sublist (rev m) (rev (dropWhile isWhiteSpace s))"
    by simp
  moreover have "rev m \<noteq> []" using assms(2) by simp
  moreover have "\<not> isWhiteSpace (hd (rev m))" using assms(2,4) by (simp add: hd_rev)
  ultimately have "sublist (rev m) (dropWhile isWhiteSpace (rev (dropWhile isWhiteSpace s)))"
    by (rule sublist_dropWhile)
  then show ?thesis
    unfolding trim_def by (simp only: sublist_rev_left rev_rev_ident)
qed

lemma includes_sqlite_master:
  assumes "toLowerCase m = ''sqlite_master''"
  shows "str_includes (trim (toLowerCase (pre @ m @ post))) ''sqlite_master''"
proof -
  have e: "toLowerCase (pre @ m @ post) = toLowerCase pre @ toLowerCase m @ toLowerCase post"
    by (simp add: toLowerCase_def)
  have "sublist (toLowerCase m) (toLowerCase pre @ toLowerCase m @ toLowerCase post)"
    by (rule sublist_appendI)
  then have "sublist ''sqlite_master'' (toLowerCase (pre @ m @ post))"
    unfolding e assms .
  moreover have "\<not> isWhiteSpace (hd ''sqlite_master'')" "\<not> isWhiteSpace (last ''sqlite_master'')"
    by (simp_all add: isWhiteSpace_def)
  ultimately show ?thesis
    unfolding str_includes_def by (intro sublist_trim) simp_all
qed

lemma switch_usage_exec: "switch_action_usage rt ''exec'' t payload = case_exec rt payload"
  by (simp add: switch_action_usage_def)

lemma case_exec_blocked:
  assumes "js_get payload ''query'' = JStr (pre @ m @ post)"
    and "toLowerCase m = ''sqlite_master''"
  shows "case_exec rt payload = (Inr (Error ''Access to system tables via EXEC is forbidden.''), [])"
proof -
  have "m \<noteq> []" using assms(2) by (auto simp: toLowerCase_def)
  then have "truthy (JStr (pre @ m @ post))" by simp
  then show ?thesis
    using assms(1) includes_sqlite_master [OF assms(2), of pre post]
    by (simp add: case_exec_def Let_def)
qed

lemma insert_statement_object:
  "insert_statement t (JObj fs) =
     Inr (''INSERT INTO '' @ t @ '' ('' @
            join '','' (filter (\<lambda>k. k \<in> set allowedColumns_usage) (Object_keys fs)) @
            '') VALUES ('' @
            join '','' (map (\<lambda>k. ''?'') (filter (\<lambda>k. k \<in> set allowedColumns_usage) (Object_keys fs))) @
            '')'',
          map (js_get fs) (filter (\<lambda>k. k \<in> set allowedColumns_usage) (Object_keys fs)))"
  by (simp add: insert_statement_def Object_keys_of_def js_get_of_def Let_def)

lemma map_statements_objects:
  assumes "\<forall>r\<in>set records. \<exists>fs. r = JObj fs"
  shows "\<exists>stmts. map_statements t records = (stmts, None) \<and> length stmts = length records \<and>
           (\<forall>i<length records. insert_statement t (records ! i) = Inr (stmts ! i))"
  using assms
proof (induction records)
  case Nil
  then show ?case by simp
next
  case (Cons r rs)
  then obtain fs where r: "r = JObj fs" by auto
  obtain s where s: "insert_statement t r = Inr s"
    unfolding r insert_statement_object by blast
  obtain stmts where st: "map_statements t rs = (stmts, None)" "length stmts = length rs"
    "\<forall>i<length rs. insert_statement t (rs ! i) = Inr (stmts ! i)"
    using Cons by auto
  have "map_statements t (r # rs) = (s # stmts, None)"
    using s st(1) by simp
  moreover have "length (s # stmts) = length (r # rs)" using st(2) by simp
  moreover have "\<forall>i<length (r # rs). insert_statement t ((r # rs) ! i) = Inr ((s # stmts) ! i)"
  proof (intro allI impI)
    fix i assume "i < length (r # rs)"
    then show "insert_statement t ((r # rs) ! i) = Inr ((s # stmts) ! i)"
      using s st(3) by (cases i) auto
  qed
  ultimately show ?case by blast
qed

lemma switch_usage_batch_post:
  "switch_action_usage rt ''batch_post'' t payload = case_batch_post rt t payload"
  by (simp add: switch_action_usage_def)

lemma store_calls_prepares:
  "store_calls (map (\<lambda>stmt. DbPrepare (fst stmt)) stmts @ [DbBatch stmts] @ rest) =
   map (\<lambda>stmt. DbPrepare (fst stmt)) stmts @ [DbBatch stmts] @ store_calls rest"
  by (induction stmts) (simp_all add: store_calls_def)

lemma lower_SQLite_Master: "toLowerCase ''SQLite_Master'' = ''sqlite_master''"
  by code_simp

lemma case_put_valid:
  assumes "truthy (js_get payload ''id'')"
    and "\<forall>k\<in>set (Object_keys payload). k = ''table_name'' \<or> k = ''id'' \<or> k \<in> set cols"
  shows "\<exists>sql vals. case_put cols rt t payload =
           (case db_run rt (sql, vals) of
              Inl msg \<Rightarrow> Inl msg
            | Inr result \<Rightarrow>
                if changes result = Some 0
                then (case ToString (Number_toString rt) (js_get payload ''id'') of
                        None \<Rightarrow> Inl cannot_convert
                      | Some shown \<Rightarrow> Inr (Error (''Record not found: id='' @ shown)))
                else Inr Null,
            [DbPrepare sql, DbRun (sql, vals)])"
proof -
  have "filter (\<lambda>k. k \<notin> set cols)
          (filter (\<lambda>k. k \<noteq> ''table_name'' \<and> k \<noteq> ''id'') (Object_keys payload)) = []"
    using assms(2) by (auto simp: filter_empty_conv)
  then show ?thesis
    using assms(1) by (simp add: case_put_def Let_def case_prod_unfold)
qed

text \<open>
  The \<open>Record not found\<close> branch of \<open>put\<close> is taken only when the reply of the store has
  a field \<open>changes\<close> equal to \<open>0\<close>: for every other reply, one without that field
  included, a valid \<open>put\<close> returns null.
\<close>

lemma put_null_unless_changes_is_zero:
  assumes "resolveTableName payload = Inr (Some t)"
    and "truthy (js_get payload ''id'')"
    and "\<forall>k\<in>set (Object_keys payload). k = ''table_name'' \<or> k = ''id'' \<or> k \<in> set allowedColumns"
  shows "\<exists>sql vals. \<forall>res. db_run rt (sql, vals) = Inr res \<and> changes res \<noteq> Some 0 \<longrightarrow>
           handleApiRequest rt ''put'' payload = (Inr Null, [DbPrepare sql, DbRun (sql, vals)])"
proof -
  obtain sql vals where c: "case_put allowedColumns rt t payload =
           (case db_run rt (sql, vals) of
              Inl msg \<Rightarrow> Inl msg
            | Inr result \<Rightarrow>
                if changes result = Some 0
                then (case ToString (Number_toString rt) (js_get payload ''id'') of
                        None \<Rightarrow> Inl cannot_convert
                      | Some shown \<Rightarrow> Inr (Error (''Record not found: id='' @ shown)))
                else Inr Null,
            [DbPrepare sql, DbRun (sql, vals)])"
    using case_put_valid [OF assms(2,3), of rt t] by blast
  have h: "handleApiRequest rt ''put'' payload = try_catch (case_put allowedColumns rt t payload)"
    using assms(1) by (simp add: handle_resolved switch_put)
  have "\<forall>res. db_run rt (sql, vals) = Inr res \<and> changes res \<noteq> Some 0 \<longrightarrow>
           handleApiRequest rt ''put'' payload = (Inr Null, [DbPrepare sql, DbRun (sql, vals)])"
    unfolding h c by (simp add: try_catch_def)
  then show ?thesis by blast
qed

lemma batch_post_never_rejects_objects:
  assumes "resolveTableName payload = Inr (Some t)"
    and "js_get payload ''data'' = JArr records"
    and "\<forall>r\<in>set records. \<exists>fs. r = JObj fs"
  shows "\<exists>stmts.
           store_calls (snd (handleApiRequest_usage rt ''batch_post'' payload)) =
             map (\<lambda>stmt. DbPrepare (fst stmt)) stmts @ [DbBatch stmts] \<and>
           length stmts = length records \<and>
           (\<forall>i<length records. \<forall>fs. records ! i = JObj fs \<longrightarrow>
              stmts ! i =
                (''INSERT INTO '' @ t @ '' ('' @
                   join '','' (filter (\<lambda>k. k \<in> set allowedColumns_usage) (Object_keys fs)) @
                   '') VALUES ('' @
                   join '','' (map (\<lambda>k. ''?'')
                                (filter (\<lambda>k. k \<in> set allowedColumns_usage) (Object_keys fs))) @
                   '')'',
                 map (js_get fs) (filter (\<lambda>k. k \<in> set allowedColumns_usage) (Object_keys fs)))) \<and>
           (\<forall>rs. db_batch rt stmts = Inr rs \<longrightarrow>
              fst (handleApiRequest_usage rt ''batch_post'' payload) = Inr (Inserted (length rs)))"
proof -
  obtain stmts where st: "map_statements t records = (stmts, None)"
    "length stmts = length records"
    "\<forall>i<length records. insert_statement t (records ! i) = Inr (stmts ! i)"
    using map_statements_objects [OF assms(3), of t] by blast
  have h: "handleApiRequest_usage rt ''batch_post'' payload =
           try_catch (case db_batch rt stmts of
                        Inl msg \<Rightarrow> Inl msg
                      | Inr rs \<Rightarrow> Inr (Inserted (length rs)),
                      map (\<lambda>stmt. DbPrepare (fst stmt)) stmts @ [DbBatch stmts])"
    using assms(1,2) st(1)
    by (simp add: handle_usage_resolved switch_usage_batch_post case_batch_post_def)
  have calls: "store_calls (snd (handleApiRequest_usage rt ''batch_post'' payload)) =
             map (\<lambda>stmt. DbPrepare (fst stmt)) stmts @ [DbBatch stmts]"
  proof (cases "db_batch rt stmts")
    case (Inl msg)
    then show ?thesis
      using store_calls_prepares [of stmts "[ErrDelegate (''DB operation failed: '' @ msg)]"]
      by (simp add: h try_catch_def store_calls_log)
  next
    case (Inr rs)
    then show ?thesis
      using store_calls_prepares [of stmts "[]"]
      by (simp add: h try_catch_def store_calls_Nil)
  qed
  have shape: "\<forall>i<length records. \<forall>fs. records ! i = JObj fs \<longrightarrow>
              stmts ! i =
                (''INSERT INTO '' @ t @ '' ('' @
                   join '','' (filter (\<lambda>k. k \<in> set allowedColumns_usage) (Object_keys fs)) @
                   '') VALUES ('' @
                   join '','' (map (\<lambda>k. ''?'')
                                (filter (\<lambda>k. k \<in> set allowedColumns_usage) (Object_keys fs))) @
                   '')'',
                 map (js_get fs) (filter (\<lambda>k. k \<in> set allowedColumns_usage) (Object_keys fs)))"
  proof (intro allI impI)
    fix i fs
    assume i: "i < length records" and r: "records ! i = JObj fs"
    have "insert_statement t (JObj fs) = Inr (stmts ! i)"
      using st(3) i r by metis
    then show "stmts ! i =
                (''INSERT INTO '' @ t @ '' ('' @
                   join '','' (filter (\<lambda>k. k \<in> set allowedColumns_usage) (Object_keys fs)) @
                   '') VALUES ('' @
                   join '','' (map (\<lambda>k. ''?'')
                                (filter (\<lambda>k. k \<in> set allowedColumns_usage) (Object_keys fs))) @
                   '')'',
                 map (js_get fs) (filter (\<lambda>k. k \<in> set allowedColumns_usage) (Object_keys fs)))"
      unfolding insert_statement_object by simp
  qed
  have count: "\<forall>rs. db_batch rt stmts = Inr rs \<longrightarrow>
              fst (handleApiRequest_usage rt ''batch_post'' payload) = Inr (Inserted (length rs))"
    by (simp add: h try_catch_def)
  show ?thesis using calls st(2) shape count by blast
qed

section \<open>Claims\<close>

text \<open>
  C4. \<open>resolveTableName\<close> returns null for a payload whose \<open>table_name\<close> is absent, and
  for a string \<open>table_name\<close> that is empty, made of whitespace only, or whose trimmed
  form is in the reserved set; for every other string it returns the trimmed name,
  which is the string without its leading and trailing whitespace.
\<close>

theorem resolveTableName_trims_or_null:
  "(js_get payload ''table_name'' = JUndefined \<longrightarrow> resolveTableName payload = Inr None) \<and>
   (\<forall>s. js_get payload ''table_name'' = JStr s \<longrightarrow>
      resolveTableName payload =
        Inr (if s = [] \<or> (\<forall>c\<in>set s. isWhiteSpace c) \<or> trim s \<in> set FORBIDDEN_TABLES
             then None else Some (trim s)) \<and>
      (\<exists>l r. s = l @ trim s @ r \<and> (\<forall>c\<in>set l. isWhiteSpace c) \<and> (\<forall>c\<in>set r. isWhiteSpace c)) \<and>
      (trim s \<noteq> [] \<longrightarrow> \<not> isWhiteSpace (hd (trim s)) \<and> \<not> isWhiteSpace (last (trim s))))"
proof (intro conjI allI impI)
  assume "js_get payload ''table_name'' = JUndefined"
  then show "resolveTableName payload = Inr None"
    by (simp add: resolveTableName_def)
next
  fix s
  assume s: "js_get payload ''table_name'' = JStr s"
  show "resolveTableName payload =
        Inr (if s = [] \<or> (\<forall>c\<in>set s. isWhiteSpace c) \<or> trim s \<in> set FORBIDDEN_TABLES
             then None else Some (trim s))"
  proof (cases "s = []")
    case True
    then show ?thesis using s by (simp add: resolveTableName_def)
  next
    case False
    then show ?thesis
      using s trim_empty_iff [of s] by (simp add: resolveTableName_def Let_def)
  qed
next
  fix s
  show "\<exists>l r. s = l @ trim s @ r \<and> (\<forall>c\<in>set l. isWhiteSpace c) \<and> (\<forall>c\<in>set r. isWhiteSpace c)"
    by (rule trim_decompose)
next
  fix s
  assume "trim s \<noteq> []"
  then show "\<not> isWhiteSpace (hd (trim s))" using trim_ends by blast
next
  fix s
  assume "trim s \<noteq> []"
  then show "\<not> isWhiteSpace (last (trim s))" using trim_ends by blast
qed

theorem resolveTableName_trims_or_null_witness:
  "resolveTableName [] = Inr None \<and>
   resolveTableName [(''table_name'', JStr ''  users '')] = Inr (Some ''users'') \<and>
   resolveTableName [(''table_name'', JStr ''   '')] = Inr None \<and>
   resolveTableName [(''table_name'', JStr '' sqlite_master'')] = Inr None"
  using resolveTableName_trims_or_null [of "[]"]
    resolveTableName_trims_or_null [of "[(''table_name'', JStr ''  users '')]"]
    resolveTableName_trims_or_null [of "[(''table_name'', JStr ''   '')]"]
    resolveTableName_trims_or_null [of "[(''table_name'', JStr '' sqlite_master'')]"]
  by (simp add: js_get_def trim_def isWhiteSpace_def FORBIDDEN_TABLES_def)

text \<open>
  C2. In \<open>src/index.js\<close>, a \<open>post\<close>, \<open>put\<close>, \<open>delete\<close> or \<open>get\<close> payload with a key
  outside the column whitelist (other than \<open>table_name\<close>, than \<open>id\<close> for \<open>put\<close>, than
  the query options for \<open>get\<close>) never reaches the store, and whenever
  \<open>resolveTableName\<close> returns (\<open>table_name\<close> absent, falsy or a string) the handler
  returns an error object. A truthy \<open>table_name\<close> that is not a string makes
  \<open>resolveTableName\<close> throw before anything else happens.
\<close>

theorem unknown_key_fails_closed:
  assumes "k \<in> set (Object_keys payload)" and "k \<notin> set allowedColumns"
    and "action = ''post'' \<and> k \<noteq> ''table_name'' \<or>
         action = ''delete'' \<and> k \<noteq> ''table_name'' \<or>
         action = ''put'' \<and> k \<noteq> ''table_name'' \<and> k \<noteq> ''id'' \<or>
         action = ''get'' \<and> k \<notin> set allowedQueryOptions"
  shows "store_calls (snd (handleApiRequest rt action payload)) = [] \<and>
         (\<forall>tn. resolveTableName payload = Inr tn \<longrightarrow>
            (\<exists>msg. fst (handleApiRequest rt action payload) = Inr (Error msg)))"
proof (cases "resolveTableName payload")
  case (Inl e)
  then show ?thesis by (simp add: handleApiRequest_def store_calls_Nil)
next
  case (Inr tn)
  show ?thesis
  proof (cases tn)
    case None
    then show ?thesis using Inr by (simp add: handleApiRequest_def store_calls_log)
  next
    case (Some t)
    have "\<exists>msg. switch_action allowedColumns rt action t payload = (Inr (Error msg), [])"
    proof -
      consider (post) "action = ''post''" "k \<noteq> ''table_name''"
        | (delete) "action = ''delete''" "k \<noteq> ''table_name''"
        | (put) "action = ''put''" "k \<noteq> ''table_name''" "k \<noteq> ''id''"
        | (get) "action = ''get''" "k \<notin> set allowedQueryOptions"
        using assms(3) by blast
      then show ?thesis
      proof cases
        case post
        then show ?thesis
          using case_post_invalid [OF assms(1) post(2) assms(2), of rt t]
          by (simp add: switch_action_def)
      next
        case delete
        then show ?thesis
          using case_delete_invalid [OF assms(1) delete(2) assms(2), of rt t]
          by (simp add: switch_action_def)
      next
        case put
        then show ?thesis
          using case_put_invalid [OF assms(1) put(2) put(3) assms(2), of rt t]
          by (simp add: switch_action_def)
      next
        case get
        then show ?thesis
          using case_get_invalid [OF assms(1) get(2) assms(2), of rt t]
          by (simp add: switch_action_def)
      qed
    qed
    then obtain msg where "switch_action allowedColumns rt action t payload = (Inr (Error msg), [])"
      by blast
    then show ?thesis
      using Inr Some by (simp add: handleApiRequest_def try_catch_returned store_calls_Nil)
  qed
qed

theorem unknown_key_fails_closed_witness:
  "store_calls (snd (handleApiRequest (accepting_store 1) ''post''
       [(''table_name'', JStr ''users''), (''c1'', JStr ''a''), (''bogus'', JNull)])) = [] \<and>
   (\<exists>msg. fst (handleApiRequest (accepting_store 1) ''post''
       [(''table_name'', JStr ''users''), (''c1'', JStr ''a''), (''bogus'', JNull)]) = Inr (Error msg))"
proof -
  let ?p = "[(''table_name'', JStr ''users''), (''c1'', JStr ''a''), (''bogus'', JNull)]"
  have k: "''bogus'' \<in> set (Object_keys ?p)" by (simp add: Object_keys_def)
  have c: "''bogus'' \<notin> set allowedColumns" by (simp add: allowedColumns_def)
  have r: "resolveTableName ?p = Inr (Some ''users'')"
    by (simp add: resolveTableName_def js_get_def trim_def isWhiteSpace_def FORBIDDEN_TABLES_def)
  show ?thesis
    using unknown_key_fails_closed [OF k c, of "''post''" "accepting_store 1"] r by simp
qed

text \<open>
  C10. A \<open>put\<close> whose \<open>payload.id\<close> is falsy (absent, \<open>0\<close>, the empty string, \<open>null\<close>,
  \<open>false\<close>) never reaches the store, in \<open>src/index.js\<close> and in the listing of
  \<open>usage.md\<close> alike; once the table name has resolved, the handler returns the error
  \<open>Missing 'id' for update\<close> and nothing else happens.
\<close>

theorem put_falsy_id_rejected:
  assumes "\<not> truthy (js_get payload ''id'')"
  shows "store_calls (snd (handleApiRequest rt ''put'' payload)) = [] \<and>
         store_calls (snd (handleApiRequest_usage rt ''put'' payload)) = [] \<and>
         (\<forall>t. resolveTableName payload = Inr (Some t) \<longrightarrow>
            handleApiRequest rt ''put'' payload = (Inr (Error ''Missing 'id' for update''), []) \<and>
            handleApiRequest_usage rt ''put'' payload = (Inr (Error ''Missing 'id' for update''), []))"
proof (cases "resolveTableName payload")
  case (Inl e)
  then show ?thesis
    by (simp add: handle_throws handle_usage_throws store_calls_Nil)
next
  case (Inr tn)
  show ?thesis
  proof (cases tn)
    case None
    then show ?thesis
      using Inr by (simp add: handle_unresolved handle_usage_unresolved store_calls_log)
  next
    case (Some t)
    then show ?thesis
      using Inr assms
      by (simp add: handle_resolved handle_usage_resolved switch_put switch_usage_put
          case_put_no_id try_catch_returned store_calls_Nil)
  qed
qed

theorem put_falsy_id_rejected_witness:
  "handleApiRequest (accepting_store 1) ''put''
     [(''table_name'', JStr ''users''), (''id'', JNum (Finite 0)), (''c1'', JStr ''a'')] =
     (Inr (Error ''Missing 'id' for update''), []) \<and>
   handleApiRequest_usage (accepting_store 1) ''put''
     [(''table_name'', JStr ''users''), (''id'', JStr []), (''c1'', JStr ''a'')] =
     (Inr (Error ''Missing 'id' for update''), [])"
  using put_falsy_id_rejected [of "[(''table_name'', JStr ''users''), (''id'', JNum (Finite 0)), (''c1'', JStr ''a'')]" "accepting_store 1"]
    put_falsy_id_rejected [of "[(''table_name'', JStr ''users''), (''id'', JStr []), (''c1'', JStr ''a'')]" "accepting_store 1"]
  by (simp add: resolve_users js_get_def)

text \<open>
  C6. A \<open>get\<close> whose payload has both \<open>minId\<close> and \<open>offset\<close> (each with any value but
  \<open>undefined\<close>) never reaches the store, and the handler returns an error object
  whenever \<open>resolveTableName\<close> returns. Once the table name has resolved and every
  filter key is a whitelisted column, the error is the one about the two options and
  the handler has done nothing else.
\<close>

theorem get_minId_and_offset_rejected:
  assumes "js_get payload ''minId'' \<noteq> JUndefined" and "js_get payload ''offset'' \<noteq> JUndefined"
  shows "store_calls (snd (handleApiRequest rt ''get'' payload)) = [] \<and>
         (\<forall>tn. resolveTableName payload = Inr tn \<longrightarrow>
            (\<exists>msg. fst (handleApiRequest rt ''get'' payload) = Inr (Error msg))) \<and>
         (\<forall>t. resolveTableName payload = Inr (Some t) \<and>
              (\<forall>k\<in>set (Object_keys payload). k \<in> set allowedQueryOptions \<or> k \<in> set allowedColumns) \<longrightarrow>
            handleApiRequest rt ''get'' payload =
              (Inr (Error ''Cannot use both 'minId' and 'offset' together.''), []))"
proof (cases "resolveTableName payload")
  case (Inl e)
  then show ?thesis by (simp add: handle_throws store_calls_Nil)
next
  case (Inr tn)
  show ?thesis
  proof (cases tn)
    case None
    then show ?thesis using Inr by (simp add: handle_unresolved store_calls_log)
  next
    case (Some t)
    obtain msg where m: "case_get allowedColumns rt t payload = (Inr (Error msg), [])"
      using case_get_error_or_both [OF assms, of allowedColumns rt t] by blast
    have h: "handleApiRequest rt ''get'' payload = case_get allowedColumns rt t payload"
      using Inr Some m by (simp add: handle_resolved switch_get try_catch_returned)
    show ?thesis
      using Inr Some m h case_get_error_or_both [OF assms, of allowedColumns rt t]
      by (simp add: store_calls_Nil)
  qed
qed

theorem get_minId_and_offset_rejected_witness:
  "handleApiRequest (accepting_store 1) ''get''
     [(''table_name'', JStr ''users''), (''c1'', JStr ''a''),
      (''minId'', JNum (Finite 5)), (''offset'', JNull)] =
     (Inr (Error ''Cannot use both 'minId' and 'offset' together.''), [])"
  using get_minId_and_offset_rejected [of "[(''table_name'', JStr ''users''), (''c1'', JStr ''a''),
      (''minId'', JNum (Finite 5)), (''offset'', JNull)]" "accepting_store 1"]
  by (simp add: resolve_users js_get_def Object_keys_def allowedQueryOptions_def allowedColumns_def)

text \<open>
  C9. Every action of both handlers, \<open>exec\<close> and \<open>list_tables\<close> included, comes after
  the check of the table name. A payload without \<open>table_name\<close> resolves to null, and
  then, whatever the action, the handler logs and returns
  \<open>Invalid or missing table_name\<close> and does nothing else. Conversely a store call
  happens only under a name that resolved: a string whose trimmed form is not empty
  and not reserved. No action and no value of \<open>table_name\<close> is exempt.
\<close>

theorem table_name_required_by_every_action:
  "(js_get payload ''table_name'' = JUndefined \<longrightarrow> resolveTableName payload = Inr None) \<and>
   (resolveTableName payload = Inr None \<longrightarrow>
      handleApiRequest rt action payload =
        (Inr (Error ''Invalid or missing table_name''),
         [ErrDelegate ''Invalid or missing table_name'']) \<and>
      handleApiRequest_usage rt action payload =
        (Inr (Error ''Invalid or missing table_name''),
         [ErrDelegate ''Invalid or missing table_name''])) \<and>
   (store_calls (snd (handleApiRequest rt action payload)) \<noteq> [] \<or>
    store_calls (snd (handleApiRequest_usage rt action payload)) \<noteq> [] \<longrightarrow>
      (\<exists>t s. resolveTableName payload = Inr (Some t) \<and>
             js_get payload ''table_name'' = JStr s \<and> t = trim s \<and>
             t \<noteq> [] \<and> t \<notin> set FORBIDDEN_TABLES))"
proof (intro conjI impI)
  assume "js_get payload ''table_name'' = JUndefined"
  then show "resolveTableName payload = Inr None" by (rule resolve_absent)
next
  assume "resolveTableName payload = Inr None"
  then show "handleApiRequest rt action payload =
        (Inr (Error ''Invalid or missing table_name''),
         [ErrDelegate ''Invalid or missing table_name''])"
    by (rule handle_unresolved)
next
  assume "resolveTableName payload = Inr None"
  then show "handleApiRequest_usage rt action payload =
        (Inr (Error ''Invalid or missing table_name''),
         [ErrDelegate ''Invalid or missing table_name''])"
    by (rule handle_usage_unresolved)
next
  assume "store_calls (snd (handleApiRequest rt action payload)) \<noteq> [] \<or>
    store_calls (snd (handleApiRequest_usage rt action payload)) \<noteq> []"
  then obtain t where "resolveTableName payload = Inr (Some t)"
    using handle_store_call_resolved handle_usage_store_call_resolved by blast
  then show "\<exists>t s. resolveTableName payload = Inr (Some t) \<and>
             js_get payload ''table_name'' = JStr s \<and> t = trim s \<and>
             t \<noteq> [] \<and> t \<notin> set FORBIDDEN_TABLES"
    using resolve_Some by blast
qed

text \<open>
  The \<open>exec\<close> example of \<open>usage.md\<close>, whose payload has \<open>query\<close> and \<open>params\<close> only, and
  a \<open>list_tables\<close> with an empty payload.
\<close>

theorem table_name_required_by_every_action_witness:
  "handleApiRequest_usage (accepting_store 1) ''exec''
     [(''query'', JStr ''SELECT c1, AVG(i1) FROM sensor_logs GROUP BY c1 HAVING AVG(i1) > ?''),
      (''params'', JArr [JNum (Finite 50)])] =
     (Inr (Error ''Invalid or missing table_name''),
      [ErrDelegate ''Invalid or missing table_name'']) \<and>
   handleApiRequest_usage (accepting_store 1) ''list_tables'' [] =
     (Inr (Error ''Invalid or missing table_name''),
      [ErrDelegate ''Invalid or missing table_name''])"
  using table_name_required_by_every_action [of
      "[(''query'', JStr ''SELECT c1, AVG(i1) FROM sensor_logs GROUP BY c1 HAVING AVG(i1) > ?''),
        (''params'', JArr [JNum (Finite 50)])]" "accepting_store 1" "''exec''"]
    table_name_required_by_every_action [of "[]" "accepting_store 1" "''list_tables''"]
  by (simp add: js_get_def)

text \<open>
  C5. A \<open>get\<close> of \<open>src/index.js\<close> that passes validation (the table name resolves, every
  filter key is a whitelisted column, \<open>minId\<close> and \<open>offset\<close> are not both present)
  prepares and runs exactly one statement, whose text ends in \<open>LIMIT L\<close>: \<open>L\<close> is
  \<open>min n 500\<close> when \<open>payload.limit\<close> is the positive integer \<open>n\<close>, and \<open>100\<close> when
  \<open>payload.limit\<close> is anything else (absent, zero, negative, a fraction, not a number).
\<close>

theorem get_limit_clamped:
  assumes "resolveTableName payload = Inr (Some t)"
    and "\<forall>k\<in>set (Object_keys payload). k \<in> set allowedQueryOptions \<or> k \<in> set allowedColumns"
    and "js_get payload ''minId'' = JUndefined \<or> js_get payload ''offset'' = JUndefined"
  shows "\<exists>pre params L.
           store_calls (snd (handleApiRequest rt ''get'' payload)) =
             [DbPrepare (pre @ '' LIMIT '' @ decimal L),
              DbAll (pre @ '' LIMIT '' @ decimal L, params)] \<and>
           (\<forall>n. 0 < n \<and> js_get payload ''limit'' = JNum (Finite (of_nat n)) \<longrightarrow> L = min n 500) \<and>
           ((\<forall>n. 0 < n \<longrightarrow> js_get payload ''limit'' \<noteq> JNum (Finite (of_nat n))) \<longrightarrow> L = 100)"
proof -
  let ?cf = "filter (\<lambda>k. k \<notin> set allowedQueryOptions)
               (Object_keys (filter (\<lambda>(k, v). k \<noteq> ''table_name'') payload))"
  have "\<forall>k\<in>set ?cf. k \<in> set allowedColumns"
    using assms(2) by (auto simp: keys_options)
  then have "find (\<lambda>k. k \<notin> set allowedColumns) ?cf = None"
    unfolding find_None_iff by blast
  then obtain pre params where
    tr: "store_calls (snd (try_catch (case_get allowedColumns rt t payload))) =
           [DbPrepare (pre @ '' LIMIT '' @ decimal (limit_of (js_get payload ''limit''))),
            DbAll (pre @ '' LIMIT '' @ decimal (limit_of (js_get payload ''limit'')), params)]"
    using case_get_valid [OF _ assms(3), of allowedColumns rt t] by blast
  have h: "handleApiRequest rt ''get'' payload = try_catch (case_get allowedColumns rt t payload)"
    using assms(1) by (simp add: handle_resolved switch_get)
  have "\<forall>n. 0 < n \<and> js_get payload ''limit'' = JNum (Finite (of_nat n)) \<longrightarrow>
          limit_of (js_get payload ''limit'') = min n 500"
    using limit_of_positive by auto
  moreover have "(\<forall>n. 0 < n \<longrightarrow> js_get payload ''limit'' \<noteq> JNum (Finite (of_nat n))) \<longrightarrow>
          limit_of (js_get payload ''limit'') = 100"
    using limit_of_default by blast
  moreover have "store_calls (snd (handleApiRequest rt ''get'' payload)) =
             [DbPrepare (pre @ '' LIMIT '' @ decimal (limit_of (js_get payload ''limit''))),
              DbAll (pre @ '' LIMIT '' @ decimal (limit_of (js_get payload ''limit'')), params)]"
    by (simp only: h tr)
  ultimately show ?thesis by blast
qed

theorem get_limit_clamped_witness:
  "(\<exists>pre params.
      store_calls (snd (handleApiRequest (accepting_store 1) ''get''
        [(''table_name'', JStr ''users''), (''c1'', JStr ''a''), (''limit'', JNum (Finite 10000))])) =
      [DbPrepare (pre @ '' LIMIT 500''), DbAll (pre @ '' LIMIT 500'', params)]) \<and>
   (\<exists>pre params.
      store_calls (snd (handleApiRequest (accepting_store 1) ''get''
        [(''table_name'', JStr ''users''), (''limit'', JNum (Finite 0))])) =
      [DbPrepare (pre @ '' LIMIT 100''), DbAll (pre @ '' LIMIT 100'', params)])"
proof
  let ?p = "[(''table_name'', JStr ''users''), (''c1'', JStr ''a''), (''limit'', JNum (Finite 10000))]"
  have v: "\<forall>k\<in>set (Object_keys ?p). k \<in> set allowedQueryOptions \<or> k \<in> set allowedColumns"
    by (simp add: Object_keys_def allowedQueryOptions_def allowedColumns_def)
  have m: "js_get ?p ''minId'' = JUndefined \<or> js_get ?p ''offset'' = JUndefined"
    by (simp add: js_get_def)
  obtain pre params L where
    tr: "store_calls (snd (handleApiRequest (accepting_store 1) ''get'' ?p)) =
           [DbPrepare (pre @ '' LIMIT '' @ decimal L), DbAll (pre @ '' LIMIT '' @ decimal L, params)]"
    and l: "\<forall>n. 0 < n \<and> js_get ?p ''limit'' = JNum (Finite (of_nat n)) \<longrightarrow> L = min n 500"
    using get_limit_clamped [OF resolve_users v m, of "accepting_store 1"] by blast
  have "js_get ?p ''limit'' = JNum (Finite (of_nat 10000))"
    by (simp add: js_get_def)
  then have L: "L = 500" using l [rule_format, of 10000] by simp
  have e: "'' LIMIT '' @ ''500'' = '' LIMIT 500''" by simp
  show "\<exists>pre params.
      store_calls (snd (handleApiRequest (accepting_store 1) ''get'' ?p)) =
      [DbPrepare (pre @ '' LIMIT 500''), DbAll (pre @ '' LIMIT 500'', params)]"
    using tr unfolding L decimal_500 e by blast
next
  let ?p = "[(''table_name'', JStr ''users''), (''limit'', JNum (Finite 0))]"
  have v: "\<forall>k\<in>set (Object_keys ?p). k \<in> set allowedQueryOptions \<or> k \<in> set allowedColumns"
    by (simp add: Object_keys_def allowedQueryOptions_def allowedColumns_def)
  have m: "js_get ?p ''minId'' = JUndefined \<or> js_get ?p ''offset'' = JUndefined"
    by (simp add: js_get_def)
  obtain pre params L where
    tr: "store_calls (snd (handleApiRequest (accepting_store 1) ''get'' ?p)) =
           [DbPrepare (pre @ '' LIMIT '' @ decimal L), DbAll (pre @ '' LIMIT '' @ decimal L, params)]"
    and l: "(\<forall>n. 0 < n \<longrightarrow> js_get ?p ''limit'' \<noteq> JNum (Finite (of_nat n))) \<longrightarrow> L = 100"
    using get_limit_clamped [OF resolve_users v m, of "accepting_store 1"] by blast
  have "\<forall>n. 0 < n \<longrightarrow> js_get ?p ''limit'' \<noteq> JNum (Finite (of_nat n))"
    by (simp add: js_get_def)
  then have L: "L = 100" using l by blast
  have e: "'' LIMIT '' @ ''100'' = '' LIMIT 100''" by simp
  show "\<exists>pre params.
      store_calls (snd (handleApiRequest (accepting_store 1) ''get'' ?p)) =
      [DbPrepare (pre @ '' LIMIT 100''), DbAll (pre @ '' LIMIT 100'', params)]"
    using tr unfolding L decimal_100 e by blast
qed

text \<open>
  C8. In \<open>src/index.js\<close>, a \<open>delete\<close> whose table name resolves to \<open>t\<close> and whose payload
  has no key besides \<open>table_name\<close> does, in this order: call the logging delegate with
  \<open>DELETE ALL from t\<close>, prepare \<open>DELETE FROM t\<close> (no \<open>WHERE\<close> clause, no bound value) and
  run it. Nothing comes before the log entry and the only event that can follow the
  run is the log entry of a store failure.
\<close>

theorem delete_all_is_logged_first:
  assumes "resolveTableName payload = Inr (Some t)"
    and "set (Object_keys payload) \<subseteq> {''table_name''}"
  shows "\<exists>rest. snd (handleApiRequest rt ''delete'' payload) =
           ErrDelegate (''DELETE ALL from '' @ t) #
           DbPrepare (''DELETE FROM '' @ t) #
           DbRun (''DELETE FROM '' @ t, []) # rest \<and>
           store_calls rest = []"
proof -
  have h: "handleApiRequest rt ''delete'' payload = try_catch (case_delete allowedColumns rt t payload)"
    using assms(1) by (simp add: handle_resolved switch_delete)
  show ?thesis
  proof (cases "db_run rt (''DELETE FROM '' @ t, [])")
    case (Inl msg)
    then show ?thesis
      using h case_delete_all [OF assms(2), of allowedColumns rt t]
      by (simp add: try_catch_def store_calls_def)
  next
    case (Inr res)
    then show ?thesis
      using h case_delete_all [OF assms(2), of allowedColumns rt t]
      by (simp add: try_catch_def store_calls_def)
  qed
qed

theorem delete_all_is_logged_first_witness:
  "handleApiRequest (accepting_store 3) ''delete'' [(''table_name'', JStr ''users'')] =
     (Inr (Deleted 3),
      [ErrDelegate ''DELETE ALL from users'',
       DbPrepare ''DELETE FROM users'', DbRun (''DELETE FROM users'', [])])"
proof -
  let ?p = "[(''table_name'', JStr ''users'')]"
  have k: "set (Object_keys ?p) \<subseteq> {''table_name''}" by (simp add: Object_keys_def)
  obtain rest where
    tr: "snd (handleApiRequest (accepting_store 3) ''delete'' ?p) =
           ErrDelegate (''DELETE ALL from '' @ ''users'') #
           DbPrepare (''DELETE FROM '' @ ''users'') #
           DbRun (''DELETE FROM '' @ ''users'', []) # rest"
    using delete_all_is_logged_first [OF resolve_users k, of "accepting_store 3"] by blast
  have "handleApiRequest (accepting_store 3) ''delete'' ?p =
     (Inr (Deleted 3),
      [ErrDelegate ''DELETE ALL from users'',
       DbPrepare ''DELETE FROM users'', DbRun (''DELETE FROM users'', [])])"
    by (simp add: handle_resolved [OF resolve_users] switch_delete case_delete_all [OF k]
        accepting_store_def accepting_result_def try_catch_def)
  then show ?thesis using tr by simp
qed

text \<open>
  C3. In the listing of \<open>usage.md\<close>, an \<open>exec\<close> whose query text contains \<open>sqlite_master\<close>
  in any letter case (a part \<open>m\<close> that lowercases to it), with any text around it,
  never prepares or runs a statement; the handler returns an error object whenever
  \<open>resolveTableName\<close> returns, and once the table name has resolved it is the error
  about system tables, with no event at all.
\<close>

theorem exec_sqlite_master_blocked:
  assumes "js_get payload ''query'' = JStr (pre @ m @ post)"
    and "toLowerCase m = ''sqlite_master''"
  shows "store_calls (snd (handleApiRequest_usage rt ''exec'' payload)) = [] \<and>
         (\<forall>tn. resolveTableName payload = Inr tn \<longrightarrow>
            (\<exists>msg. fst (handleApiRequest_usage rt ''exec'' payload) = Inr (Error msg))) \<and>
         (\<forall>t. resolveTableName payload = Inr (Some t) \<longrightarrow>
            handleApiRequest_usage rt ''exec'' payload =
              (Inr (Error ''Access to system tables via EXEC is forbidden.''), []))"
proof (cases "resolveTableName payload")
  case (Inl e)
  then show ?thesis by (simp add: handle_usage_throws store_calls_Nil)
next
  case (Inr tn)
  show ?thesis
  proof (cases tn)
    case None
    then show ?thesis using Inr by (simp add: handle_usage_unresolved store_calls_log)
  next
    case (Some t)
    then show ?thesis
      using Inr case_exec_blocked [OF assms, of rt]
      by (simp add: handle_usage_resolved switch_usage_exec try_catch_returned store_calls_Nil)
  qed
qed

theorem exec_sqlite_master_blocked_witness:
  "handleApiRequest_usage (accepting_store 1) ''exec''
     [(''table_name'', JStr ''users''), (''query'', JStr ''  SELECT name FROM SQLite_Master ;'')] =
     (Inr (Error ''Access to system tables via EXEC is forbidden.''), [])"
proof -
  let ?p = "[(''table_name'', JStr ''users''), (''query'', JStr ''  SELECT name FROM SQLite_Master ;'')]"
  have q: "js_get ?p ''query'' = JStr (''  SELECT name FROM '' @ ''SQLite_Master'' @ '' ;'')"
    by (simp add: js_get_def)
  show ?thesis
    using exec_sqlite_master_blocked [OF q lower_SQLite_Master, of "accepting_store 1"]
    by (simp add: resolve_users)
qed

text \<open>
  C7. The second half of the claim fails on a D1 store. The table \<open>users\<close> holds no row
  with id \<open>2\<close>, so the store reports zero changes, in \<open>meta.changes\<close> as a D1 binding
  does. Case \<open>put\<close> of \<open>src/index.js\<close> compares \<open>result.changes\<close>, a field the reply does
  not have, with \<open>0\<close>: the check for a missing row never fires, and the handler
  returns null, which the envelope acknowledges as a success, for the touch and for
  the update of a field alike.
\<close>

theorem put_on_missing_row_returns_null:
  "handleApiRequest (d1_store 0) ''put''
     [(''table_name'', JStr ''users''), (''id'', JNum (Finite 2))] =
     (Inr Null,
      [DbPrepare ''UPDATE users SET v2 = CURRENT_TIMESTAMP WHERE id = ?'',
       DbRun (''UPDATE users SET v2 = CURRENT_TIMESTAMP WHERE id = ?'', [JNum (Finite 2)])]) \<and>
   handleApiRequest (d1_store 0) ''put''
     [(''table_name'', JStr ''users''), (''id'', JNum (Finite 2)), (''i1'', JNum (Finite 105))] =
     (Inr Null,
      [DbPrepare ''UPDATE users SET i1 = ?, v2 = CURRENT_TIMESTAMP WHERE id = ?'',
       DbRun (''UPDATE users SET i1 = ?, v2 = CURRENT_TIMESTAMP WHERE id = ?'',
              [JNum (Finite 105), JNum (Finite 2)])])"
  by (simp add: handle_resolved [OF resolve_users] switch_put case_put_def Let_def
      Object_keys_def js_get_def allowedColumns_def d1_store_def d1_result_def try_catch_def)

text \<open>
  C1. The first half of the claim fails on the listing of \<open>usage.md\<close>. The second
  record of the batch has the key \<open>bogus\<close>, outside the whitelist: \<open>batch_post\<close> filters
  the key away, submits both inserts and counts them, where the case \<open>post\<close> of the
  same listing rejects the same record with \<open>Invalid columns\<close> and does not call the
  store.
\<close>

theorem batch_post_unknown_key_not_rejected:
  "handleApiRequest_usage (accepting_store 1) ''batch_post''
     [(''table_name'', JStr ''users''),
      (''data'', JArr [JObj [(''c1'', JStr ''a'')],
                       JObj [(''c1'', JStr ''b''), (''bogus'', JNum (Finite 1))]])] =
     (Inr (Inserted 2),
      [DbPrepare ''INSERT INTO users (c1) VALUES (?)'',
       DbPrepare ''INSERT INTO users (c1) VALUES (?)'',
       DbBatch [(''INSERT INTO users (c1) VALUES (?)'', [JStr ''a'']),
                (''INSERT INTO users (c1) VALUES (?)'', [JStr ''b''])]]) \<and>
   handleApiRequest_usage (accepting_store 1) ''post''
     [(''table_name'', JStr ''users''), (''c1'', JStr ''b''), (''bogus'', JNum (Finite 1))] =
     (Inr (Error ''Invalid columns: bogus''), [])"
  by (simp add: handle_usage_resolved [OF resolve_users] switch_usage_batch_post
      switch_action_usage_def switch_action_def case_post_def Let_def
      case_batch_post_def insert_statement_object js_get_def Object_keys_def
      allowedColumns_usage_def allowedColumns_def accepting_store_def accepting_result_def
      try_catch_def)

end
